theory Spec2Isabelle
  imports Complex_Main
begin

section \<open>Numbers and rounding\<close>

text \<open>
  The calculator of \<^verbatim>\<open>src/utils/mortgageCalculations.ts\<close> computes on JavaScript numbers.
  They are modelled as exact reals: every operation of the source is the same operation on
  \<^typ>\<open>real\<close>, without the rounding error of IEEE doubles. \<^verbatim>\<open>Math.round\<close> rounds to
  the nearest integer, a half going up; \<^verbatim>\<open>Math.ceil\<close> is the ceiling.
  The theorems below are the ones that do not rest on that difference: equalities between
  values that the program computes by the same operations in the same order, bounds that
  leave room for the rounding of doubles, and the program's results at inputs that are
  far from every rounding boundary. What holds in exact arithmetic only (that the last
  payment of the term leaves exactly nothing, for one) is not stated.
  A loan term is a whole number of years (\<^typ>\<open>nat\<close>), so that the number of payments
  is the natural number \<^verbatim>\<open>loanTermYears * 12\<close> and \<^verbatim>\<open>Math.pow\<close> is the power with a
  natural exponent.
\<close>

definition Math_round :: "real \<Rightarrow> real" where
  "Math_round x = of_int \<lfloor>x + 1 / 2\<rfloor>"

definition Math_ceil :: "real \<Rightarrow> real" where
  "Math_ceil x = of_int \<lceil>x\<rceil>"

text \<open>The idiom \<^verbatim>\<open>Math.round(v * 100) / 100\<close> of every emitted monetary field.\<close>

definition toCents :: "real \<Rightarrow> real" where
  "toCents v = Math_round (v * 100) / 100"


section \<open>Calendar dates\<close>

text \<open>
  \<^verbatim>\<open>new Date()\<close> reads the clock. The reading is an explicit argument \<open>startDate\<close> of
  every function that makes it: a calendar date with the month counted from 0, as
  \<^verbatim>\<open>getMonth\<close> does. The host's time zone is taken to be UTC, so that the local date
  that \<^verbatim>\<open>setMonth\<close> works on is the date that \<^verbatim>\<open>toISOString\<close> prints; the time of day
  is carried along unchanged and cut off by \<^verbatim>\<open>split('T')[0]\<close>.
\<close>

record Date =
  fullYear :: nat
  monthIndex :: nat
  dayOfMonth :: nat

definition isLeapYear :: "nat \<Rightarrow> bool" where
  "isLeapYear y = (y mod 4 = 0 \<and> (y mod 100 \<noteq> 0 \<or> y mod 400 = 0))"

definition daysInMonth :: "nat \<Rightarrow> nat \<Rightarrow> nat" where
  "daysInMonth y m =
     (if m = 1 then (if isLeapYear y then 29 else 28)
      else if m = 3 \<or> m = 5 \<or> m = 8 \<or> m = 10 then 30
      else 31)"

text \<open>
  \<^verbatim>\<open>setMonth(m)\<close> keeps the day of the month; a month index beyond 11 runs into the
  following years, and a day beyond the end of the month runs into the next month
  (31 January plus one month is 2 or 3 March).
\<close>

definition setMonth :: "Date \<Rightarrow> nat \<Rightarrow> Date" where
  "setMonth d m =
     (let y = fullYear d + m div 12;
          mi = m mod 12;
          dim = daysInMonth y mi
      in if dayOfMonth d \<le> dim
         then \<lparr>fullYear = y, monthIndex = mi, dayOfMonth = dayOfMonth d\<rparr>
         else \<lparr>fullYear = y, monthIndex = mi + 1, dayOfMonth = dayOfMonth d - dim\<rparr>)"

fun digits :: "nat \<Rightarrow> nat \<Rightarrow> string" where
  "digits 0 n = []"
| "digits (Suc w) n = digits w (n div 10) @ [''0123456789'' ! (n mod 10)]"

text \<open>\<^verbatim>\<open>toISOString().split('T')[0]\<close>: the date as \<^verbatim>\<open>YYYY-MM-DD\<close>.\<close>

definition isoDate :: "Date \<Rightarrow> string" where
  "isoDate d =
     (if fullYear d \<le> 9999 then digits 4 (fullYear d) else CHR ''+'' # digits 6 (fullYear d))
       @ ''-'' @ digits 2 (monthIndex d + 1) @ ''-'' @ digits 2 (dayOfMonth d)"


section \<open>The payment formula\<close>

definition calculateMonthlyPayment :: "real \<Rightarrow> real \<Rightarrow> nat \<Rightarrow> real" where
  "calculateMonthlyPayment loanAmount annualInterestRate loanTermYears =
     (if annualInterestRate = 0 then loanAmount / real (loanTermYears * 12)
      else
        let monthlyInterestRate = annualInterestRate / 100 / 12;
            numberOfPayments = loanTermYears * 12
        in loanAmount
             * (monthlyInterestRate * (1 + monthlyInterestRate) ^ numberOfPayments)
             / ((1 + monthlyInterestRate) ^ numberOfPayments - 1))"


section \<open>The payment schedule\<close>

record PaymentScheduleItem =
  paymentNumber :: nat
  paymentDate :: string
  principalPayment :: real
  interestPayment :: real
  totalPayment :: real
  remainingBalance :: real
  cumulativeInterest :: real

text \<open>
  One iteration of the \<^verbatim>\<open>for\<close> loop of \<^verbatim>\<open>generatePaymentSchedule\<close>: the entry it pushes
  and the new values of the two variables it updates. The fields of an entry keep the
  source's names, so the local variables \<^verbatim>\<open>remainingBalance\<close>, \<^verbatim>\<open>cumulativeInterest\<close>,
  \<^verbatim>\<open>interestPayment\<close>, \<^verbatim>\<open>principalPayment\<close> and \<^verbatim>\<open>paymentDate\<close> are written
  \<open>balance\<close>, \<open>cumInterest\<close>, \<open>interest\<close>, \<open>principal\<close> and \<open>payDate\<close>.
\<close>

definition generatePaymentSchedule_body ::
  "Date \<Rightarrow> real \<Rightarrow> real \<Rightarrow> nat \<Rightarrow> real \<Rightarrow> real \<Rightarrow> PaymentScheduleItem \<times> real \<times> real" where
  "generatePaymentSchedule_body startDate monthlyInterestRate monthlyPayment i balance cumInterest =
     (let interest = balance * monthlyInterestRate;
          principal = monthlyPayment - interest;
          balance = balance - principal;
          cumInterest = cumInterest + interest;
          balance = (if balance < 1 / 100 then 0 else balance);
          payDate = setMonth startDate (monthIndex startDate + i)
      in (\<lparr>paymentNumber = i,
           paymentDate = isoDate payDate,
           principalPayment = toCents principal,
           interestPayment = toCents interest,
           totalPayment = toCents monthlyPayment,
           remainingBalance = toCents balance,
           cumulativeInterest = toCents cumInterest\<rparr>,
          balance, cumInterest))"

text \<open>
  The loop from payment \<open>i\<close> on: the entries pushed, in order.
\<close>

function generatePaymentSchedule_loop ::
  "Date \<Rightarrow> real \<Rightarrow> real \<Rightarrow> nat \<Rightarrow> nat \<Rightarrow> real \<Rightarrow> real \<Rightarrow> PaymentScheduleItem list" where
  "generatePaymentSchedule_loop startDate monthlyInterestRate monthlyPayment numberOfPayments i
       balance cumInterest =
     (if i \<le> numberOfPayments then
        (case generatePaymentSchedule_body startDate monthlyInterestRate monthlyPayment i
                balance cumInterest of
           (item, balance', cumInterest') \<Rightarrow>
             item # generatePaymentSchedule_loop startDate monthlyInterestRate monthlyPayment
                      numberOfPayments (i + 1) balance' cumInterest')
      else [])"
  by pat_completeness auto
termination
  by (relation "measure (\<lambda>(sd, r, m, n, i, b, c). n + 1 - i)") auto

declare generatePaymentSchedule_loop.simps [simp del]

definition generatePaymentSchedule :: "Date \<Rightarrow> real \<Rightarrow> real \<Rightarrow> nat \<Rightarrow> PaymentScheduleItem list" where
  "generatePaymentSchedule startDate loanAmount annualInterestRate loanTermYears =
     (let monthlyInterestRate = annualInterestRate / 100 / 12;
          numberOfPayments = loanTermYears * 12;
          monthlyPayment = calculateMonthlyPayment loanAmount annualInterestRate loanTermYears
      in generatePaymentSchedule_loop startDate monthlyInterestRate monthlyPayment
           numberOfPayments 1 loanAmount 0)"


section \<open>The schedule with extra payments\<close>

text \<open>
  The file declares \<^verbatim>\<open>calculateMortgageWithExtras\<close>, \<^verbatim>\<open>calculateRefinanceComparison\<close>
  and \<^verbatim>\<open>validateRefinanceInputs\<close> twice. The second declarations, of the section
  \<^verbatim>\<open>REFINANCE CALCULATION INTERFACES AND FUNCTIONS\<close>, are taken as the ones in force,
  as the specification does (the later definitions overwrite the earlier ones), and are
  the ones modelled here, together with \<^verbatim>\<open>generateScheduleWithExtras\<close>, which only
  they use.

  One iteration of the \<^verbatim>\<open>while\<close> loop of \<^verbatim>\<open>generateScheduleWithExtras\<close>; the local
  \<^verbatim>\<open>paymentNumber\<close> and \<^verbatim>\<open>totalPayment\<close> are written \<open>paymentNo\<close> and \<open>total\<close>.
\<close>

definition generateScheduleWithExtras_body ::
  "Date \<Rightarrow> real \<Rightarrow> real \<Rightarrow> real \<Rightarrow> real \<Rightarrow> bool \<Rightarrow> nat \<Rightarrow> real \<Rightarrow> real
     \<Rightarrow> PaymentScheduleItem \<times> real \<times> real" where
  "generateScheduleWithExtras_body startDate monthlyInterestRate baseMonthlyPayment
       extraMonthlyPayment annualExtraPayment enableAnnualPayment paymentNo balance cumInterest =
     (let interest = balance * monthlyInterestRate;
          principal = baseMonthlyPayment - interest;
          total = baseMonthlyPayment;
          (principal, total) =
            (if extraMonthlyPayment > 0
             then (principal + extraMonthlyPayment, total + extraMonthlyPayment)
             else (principal, total));
          (principal, total) =
            (if enableAnnualPayment \<and> annualExtraPayment > 0 \<and> paymentNo mod 12 = 1
                \<and> paymentNo > 1
             then (principal + annualExtraPayment, total + annualExtraPayment)
             else (principal, total));
          (principal, total) =
            (if principal > balance then (balance, interest + balance) else (principal, total));
          balance = balance - principal;
          cumInterest = cumInterest + interest;
          payDate = setMonth startDate (monthIndex startDate + paymentNo)
      in (\<lparr>paymentNumber = paymentNo,
           paymentDate = isoDate payDate,
           principalPayment = toCents principal,
           interestPayment = toCents interest,
           totalPayment = toCents total,
           remainingBalance = toCents balance,
           cumulativeInterest = toCents cumInterest\<rparr>,
          balance, cumInterest))"

function generateScheduleWithExtras_loop ::
  "Date \<Rightarrow> real \<Rightarrow> real \<Rightarrow> nat \<Rightarrow> real \<Rightarrow> real \<Rightarrow> bool \<Rightarrow> nat \<Rightarrow> real \<Rightarrow> real
     \<Rightarrow> PaymentScheduleItem list" where
  "generateScheduleWithExtras_loop startDate monthlyInterestRate baseMonthlyPayment
       numberOfPayments extraMonthlyPayment annualExtraPayment enableAnnualPayment
       paymentNo balance cumInterest =
     (if balance > 1 / 100 \<and> paymentNo \<le> numberOfPayments * 2 then
        (case generateScheduleWithExtras_body startDate monthlyInterestRate baseMonthlyPayment
                extraMonthlyPayment annualExtraPayment enableAnnualPayment paymentNo
                balance cumInterest of
           (item, balance', cumInterest') \<Rightarrow>
             item # generateScheduleWithExtras_loop startDate monthlyInterestRate
                      baseMonthlyPayment numberOfPayments extraMonthlyPayment
                      annualExtraPayment enableAnnualPayment (paymentNo + 1)
                      balance' cumInterest')
      else [])"
  by pat_completeness auto
termination
  by (relation "measure (\<lambda>(sd, r, m, n, e, a, en, k, b, c). n * 2 + 1 - k)") auto

declare generateScheduleWithExtras_loop.simps [simp del]

definition generateScheduleWithExtras ::
  "Date \<Rightarrow> real \<Rightarrow> real \<Rightarrow> nat \<Rightarrow> real \<Rightarrow> real \<Rightarrow> bool \<Rightarrow> PaymentScheduleItem list" where
  "generateScheduleWithExtras startDate loanAmount annualInterestRate loanTermYears
       extraMonthlyPayment annualExtraPayment enableAnnualPayment =
     (let monthlyInterestRate = annualInterestRate / 100 / 12;
          numberOfPayments = loanTermYears * 12;
          baseMonthlyPayment = calculateMonthlyPayment loanAmount annualInterestRate loanTermYears
      in generateScheduleWithExtras_loop startDate monthlyInterestRate baseMonthlyPayment
           numberOfPayments extraMonthlyPayment annualExtraPayment enableAnnualPayment
           1 loanAmount 0)"


section \<open>Mortgage details\<close>

text \<open>
  The four escrow fields of \<^verbatim>\<open>MortgageInputs\<close> are optional; the destructuring of
  \<^verbatim>\<open>calculateMortgageDetails\<close> gives a missing one the default 0.
\<close>

record MortgageInputs =
  loanAmount :: real
  interestRate :: real
  loanTermYears :: nat
  propertyTax :: "real option"
  homeInsurance :: "real option"
  pmi :: "real option"
  hoaFees :: "real option"

record MortgageResults =
  monthlyPayment :: real
  monthlyPrincipalAndInterest :: real
  totalInterest :: real
  totalPayments :: real
  paymentSchedule :: "PaymentScheduleItem list"

definition orDefault :: "real option \<Rightarrow> real \<Rightarrow> real" where
  "orDefault v d = (case v of None \<Rightarrow> d | Some x \<Rightarrow> x)"

definition calculateMortgageDetails :: "Date \<Rightarrow> MortgageInputs \<Rightarrow> MortgageResults" where
  "calculateMortgageDetails startDate inputs =
     (let pAndI = calculateMonthlyPayment (loanAmount inputs) (interestRate inputs)
                    (loanTermYears inputs);
          monthlyPropertyTax = orDefault (propertyTax inputs) 0 / 12;
          monthlyInsurance = orDefault (homeInsurance inputs) 0 / 12;
          monthlyPMI = orDefault (pmi inputs) 0 / 12;
          monthlyHOA = orDefault (hoaFees inputs) 0 / 12;
          payment = pAndI + monthlyPropertyTax + monthlyInsurance + monthlyPMI + monthlyHOA;
          schedule = generatePaymentSchedule startDate (loanAmount inputs) (interestRate inputs)
                       (loanTermYears inputs);
          interestSum = foldl (\<lambda>sum payment. sum + interestPayment payment) 0 schedule;
          paymentsTotal = payment * real (loanTermYears inputs) * 12
      in \<lparr>monthlyPayment = payment,
          monthlyPrincipalAndInterest = pAndI,
          totalInterest = interestSum,
          totalPayments = paymentsTotal,
          paymentSchedule = schedule\<rparr>)"


record MortgageWithExtrasResults =
  monthlyPayment :: real
  totalInterest :: real
  totalPayments :: real
  paymentSchedule :: "PaymentScheduleItem list"
  timeSavedMonths :: int
  interestSaved :: real
  payoffDate :: string

definition calculateMortgageWithExtras ::
  "Date \<Rightarrow> MortgageInputs \<Rightarrow> real \<Rightarrow> real \<Rightarrow> bool \<Rightarrow> MortgageWithExtrasResults" where
  "calculateMortgageWithExtras startDate baseInputs extraMonthlyPayment annualExtraPayment
       enableAnnualPayment =
     (let baseMortgage = calculateMortgageDetails startDate baseInputs;
          scheduleWithExtras =
            generateScheduleWithExtras startDate (loanAmount baseInputs) (interestRate baseInputs)
              (loanTermYears baseInputs) extraMonthlyPayment annualExtraPayment
              enableAnnualPayment;
          interestSum =
            foldl (\<lambda>sum payment. sum + interestPayment payment) 0 scheduleWithExtras;
          paymentsTotal =
            foldl (\<lambda>sum payment. sum + totalPayment payment) 0 scheduleWithExtras;
          baseMonthlyPayment =
            calculateMonthlyPayment (loanAmount baseInputs) (interestRate baseInputs)
              (loanTermYears baseInputs);
          payment = baseMonthlyPayment + extraMonthlyPayment;
          payoff = setMonth startDate (monthIndex startDate + length scheduleWithExtras);
          timeSaved =
            int (length (MortgageResults.paymentSchedule baseMortgage))
              - int (length scheduleWithExtras);
          saved = MortgageResults.totalInterest baseMortgage - interestSum
      in \<lparr>monthlyPayment = payment,
          totalInterest = interestSum,
          totalPayments = paymentsTotal,
          paymentSchedule = scheduleWithExtras,
          timeSavedMonths = timeSaved,
          interestSaved = saved,
          payoffDate = isoDate payoff\<rparr>)"


section \<open>The refinance comparison\<close>

record RefinanceInputs =
  currentLoanAmount :: real
  currentInterestRate :: real
  currentRemainingYears :: nat
  currentMonthsRemaining :: nat
  newLoanAmount :: real
  newInterestRate :: real
  newLoanTermYears :: nat
  closingCosts :: real
  cashOut :: real
  extraMonthlyPayment :: real
  annualExtraPayment :: real
  enableAnnualPayment :: bool

record RefinanceResults =
  currentMortgage :: MortgageResults
  newMortgage :: MortgageResults
  newMortgageWithExtras :: MortgageResults
  monthlySavings :: real
  totalInterestSavings :: real
  totalSavings :: real
  breakEvenMonths :: real
  payoffTimeSaved :: int

text \<open>The two \<^verbatim>\<open>MortgageInputs\<close> literals of the comparison; neither has an escrow field.\<close>

definition currentMortgageInputs :: "RefinanceInputs \<Rightarrow> MortgageInputs" where
  "currentMortgageInputs inputs =
     \<lparr>loanAmount = currentLoanAmount inputs,
      interestRate = currentInterestRate inputs,
      loanTermYears = currentRemainingYears inputs,
      propertyTax = None, homeInsurance = None, pmi = None, hoaFees = None\<rparr>"

definition newMortgageInputs :: "RefinanceInputs \<Rightarrow> MortgageInputs" where
  "newMortgageInputs inputs =
     \<lparr>loanAmount = newLoanAmount inputs + cashOut inputs,
      interestRate = newInterestRate inputs,
      loanTermYears = newLoanTermYears inputs,
      propertyTax = None, homeInsurance = None, pmi = None, hoaFees = None\<rparr>"

definition calculateRefinanceComparison :: "Date \<Rightarrow> RefinanceInputs \<Rightarrow> RefinanceResults" where
  "calculateRefinanceComparison startDate inputs =
     (let current = calculateMortgageDetails startDate (currentMortgageInputs inputs);
          new = calculateMortgageDetails startDate (newMortgageInputs inputs);
          newWithExtras =
            calculateMortgageWithExtras startDate (newMortgageInputs inputs)
              (extraMonthlyPayment inputs) (annualExtraPayment inputs)
              (enableAnnualPayment inputs);
          newWithExtrasFormatted =
            \<lparr>MortgageResults.monthlyPayment = MortgageWithExtrasResults.monthlyPayment newWithExtras,
             monthlyPrincipalAndInterest = MortgageWithExtrasResults.monthlyPayment newWithExtras,
             MortgageResults.totalInterest = MortgageWithExtrasResults.totalInterest newWithExtras,
             MortgageResults.totalPayments = MortgageWithExtrasResults.totalPayments newWithExtras,
             MortgageResults.paymentSchedule =
               MortgageWithExtrasResults.paymentSchedule newWithExtras\<rparr>;
          savings =
            MortgageResults.monthlyPayment current
              - MortgageWithExtrasResults.monthlyPayment newWithExtras;
          interestSavings =
            MortgageResults.totalInterest current
              - MortgageWithExtrasResults.totalInterest newWithExtras;
          savingsTotal = interestSavings - closingCosts inputs;
          breakEven =
            (if savings > 0 then Math_ceil (closingCosts inputs / savings) else 999);
          timeSaved =
            int (length (MortgageResults.paymentSchedule current))
              - int (length (MortgageWithExtrasResults.paymentSchedule newWithExtras))
      in \<lparr>currentMortgage = current,
          newMortgage = new,
          newMortgageWithExtras = newWithExtrasFormatted,
          monthlySavings = savings,
          totalInterestSavings = interestSavings,
          totalSavings = savingsTotal,
          breakEvenMonths = breakEven,
          payoffTimeSaved = timeSaved\<rparr>)"

text \<open>The validators collect every violated rule, in the order of the checks.\<close>

definition validateRefinanceInputs :: "RefinanceInputs \<Rightarrow> string list" where
  "validateRefinanceInputs inputs =
     (if currentLoanAmount inputs \<le> 0
      then [''Current loan amount must be greater than 0''] else [])
     @ (if currentInterestRate inputs < 0 \<or> currentInterestRate inputs > 50
        then [''Current interest rate must be between 0% and 50%''] else [])
     @ (if currentRemainingYears inputs \<le> 0 \<or> currentRemainingYears inputs > 50
        then [''Current remaining years must be between 1 and 50''] else [])
     @ (if newLoanAmount inputs \<le> 0
        then [''New loan amount must be greater than 0''] else [])
     @ (if newInterestRate inputs < 0 \<or> newInterestRate inputs > 50
        then [''New interest rate must be between 0% and 50%''] else [])
     @ (if newLoanTermYears inputs \<le> 0 \<or> newLoanTermYears inputs > 50
        then [''New loan term must be between 1 and 50 years''] else [])
     @ (if closingCosts inputs < 0
        then [''Closing costs cannot be negative''] else [])
     @ (if extraMonthlyPayment inputs < 0
        then [''Extra monthly payment cannot be negative''] else [])
     @ (if annualExtraPayment inputs < 0
        then [''Annual extra payment cannot be negative''] else [])"

definition validateMortgageInputs :: "MortgageInputs \<Rightarrow> string list" where
  "validateMortgageInputs inputs =
     (if loanAmount inputs \<le> 0
      then [''Loan amount must be greater than 0''] else [])
     @ (if loanAmount inputs > 10000000
        then [''Loan amount must be less than $10,000,000''] else [])
     @ (if interestRate inputs < 0
        then [''Interest rate cannot be negative''] else [])
     @ (if interestRate inputs > 50
        then [''Interest rate seems unreasonably high (>50%)''] else [])
     @ (if loanTermYears inputs \<le> 0
        then [''Loan term must be greater than 0 years''] else [])
     @ (if loanTermYears inputs > 50
        then [''Loan term must be 50 years or less''] else [])"


section \<open>Notions used in the proofs\<close>

text \<open>The balance that an iteration of \<^verbatim>\<open>generatePaymentSchedule\<close> leaves.\<close>

definition plainNext :: "real \<Rightarrow> real \<Rightarrow> real \<Rightarrow> real" where
  "plainNext r m b = (if b - (m - b * r) < 1 / 100 then 0 else b - (m - b * r))"

text \<open>
  The principal and the total that an iteration of \<^verbatim>\<open>generateScheduleWithExtras\<close> pays,
  before they are rounded.
\<close>

definition extrasPrincipal :: "real \<Rightarrow> real \<Rightarrow> real \<Rightarrow> real \<Rightarrow> bool \<Rightarrow> nat \<Rightarrow> real \<Rightarrow> real" where
  "extrasPrincipal r m e a en k b =
     (let p = m - b * r + (if e > 0 then e else 0)
                + (if en \<and> a > 0 \<and> k mod 12 = 1 \<and> k > 1 then a else 0)
      in if p > b then b else p)"

definition extrasTotal :: "real \<Rightarrow> real \<Rightarrow> real \<Rightarrow> real \<Rightarrow> bool \<Rightarrow> nat \<Rightarrow> real \<Rightarrow> real" where
  "extrasTotal r m e a en k b =
     (if m - b * r + (if e > 0 then e else 0)
           + (if en \<and> a > 0 \<and> k mod 12 = 1 \<and> k > 1 then a else 0) > b
      then b * r + b
      else m + (if e > 0 then e else 0)
             + (if en \<and> a > 0 \<and> k mod 12 = 1 \<and> k > 1 then a else 0))"



section \<open>Rounding\<close>

lemma toCents_0: "toCents 0 = 0"
  by (simp add: toCents_def Math_round_def)

lemma Math_round_mono: "x \<le> y \<Longrightarrow> Math_round x \<le> Math_round y"
  by (simp add: Math_round_def floor_mono)

lemma toCents_mono: "x \<le> y \<Longrightarrow> toCents x \<le> toCents y"
  by (simp add: toCents_def Math_round_mono divide_right_mono)

lemma toCents_nonneg: "0 \<le> x \<Longrightarrow> 0 \<le> toCents x"
  using toCents_mono[of 0 x] by (simp add: toCents_0)



section \<open>What the validators accept\<close>

text \<open>
  The loans that \<^verbatim>\<open>validateMortgageInputs\<close> accepts have a positive amount, a rate that
  is not negative and a positive term: the hypotheses of the theorems on schedules below
  ask for no more.
\<close>

lemma validateMortgageInputs_accepts:
  "validateMortgageInputs inputs = [] \<longleftrightarrow>
     0 < loanAmount inputs \<and> loanAmount inputs \<le> 10000000
     \<and> 0 \<le> interestRate inputs \<and> interestRate inputs \<le> 50
     \<and> 0 < loanTermYears inputs \<and> loanTermYears inputs \<le> 50"
  by (auto simp add: validateMortgageInputs_def split: if_splits)

lemma validateRefinanceInputs_closingCosts:
  "validateRefinanceInputs inputs = [] \<Longrightarrow> 0 \<le> closingCosts inputs"
  by (simp add: validateRefinanceInputs_def split: if_splits)


section \<open>The loop of the plain schedule\<close>





lemma plainNext_nonneg: "0 \<le> plainNext r m b"
  by (simp add: plainNext_def)




section \<open>The loop of the schedule with extra payments\<close>

lemma generateScheduleWithExtras_body_eq:
  "generateScheduleWithExtras_body sd r m e a en k b c =
     (\<lparr>paymentNumber = k,
       paymentDate = isoDate (setMonth sd (monthIndex sd + k)),
       principalPayment = toCents (extrasPrincipal r m e a en k b),
       interestPayment = toCents (b * r),
       totalPayment = toCents (extrasTotal r m e a en k b),
       remainingBalance = toCents (b - extrasPrincipal r m e a en k b),
       cumulativeInterest = toCents (c + b * r)\<rparr>,
      b - extrasPrincipal r m e a en k b, c + b * r)"
  by (auto simp add: generateScheduleWithExtras_body_def extrasPrincipal_def extrasTotal_def
        Let_def)

lemma extras_loop_step:
  "1 / 100 < b \<Longrightarrow> k \<le> n * 2 \<Longrightarrow>
   generateScheduleWithExtras_loop sd r m n e a en k b c =
     fst (generateScheduleWithExtras_body sd r m e a en k b c)
       # generateScheduleWithExtras_loop sd r m n e a en (Suc k)
           (b - extrasPrincipal r m e a en k b) (c + b * r)"
  by (subst generateScheduleWithExtras_loop.simps)
     (simp add: generateScheduleWithExtras_body_eq)

lemma extras_loop_stop:
  "\<not> (1 / 100 < b \<and> k \<le> n * 2) \<Longrightarrow>
   generateScheduleWithExtras_loop sd r m n e a en k b c = []"
  by (subst generateScheduleWithExtras_loop.simps) auto

lemma extrasNext_nonneg: "0 \<le> b - extrasPrincipal r m e a en k b"
  by (simp add: extrasPrincipal_def Let_def)




lemma extras_loop_balance_nonneg:
  "\<forall>x \<in> set (generateScheduleWithExtras_loop sd r m n e a en k b c). 0 \<le> remainingBalance x"
proof (induction "n * 2 + 1 - k" arbitrary: k b c)
  case 0
  then show ?case by (simp add: extras_loop_stop)
next
  case (Suc j)
  show ?case
  proof (cases "1 / 100 < b \<and> k \<le> n * 2")
    case False
    then show ?thesis by (simp add: extras_loop_stop)
  next
    case True
    have j: "j = n * 2 + 1 - Suc k" using Suc.hyps(2) by simp
    have "0 \<le> toCents (b - extrasPrincipal r m e a en k b)"
      by (rule toCents_nonneg[OF extrasNext_nonneg])
    with Suc.hyps(1)[OF j] True show ?thesis
      by (simp add: extras_loop_step generateScheduleWithExtras_body_eq)
  qed
qed


section \<open>The sum of the rounded interests and the rounded running total\<close>










section \<open>The last entry of a schedule\<close>

text \<open>
  Claim C1 on \<^verbatim>\<open>generateScheduleWithExtras\<close>. A loan of 2000 at 6 percent over one year,
  with an extra 1837.86 a month: the schedule has one entry, no more than the twelve of the
  term, and this last entry does not show a \<^verbatim>\<open>remainingBalance\<close> of 0 but of one cent.
  The first payment leaves a balance of about 0.0071, the loop stops at that, and nothing
  sets the balance to 0 as \<^verbatim>\<open>generatePaymentSchedule\<close> does.
\<close>

theorem extras_last_entry_not_paid_off:
  "map remainingBalance
     (generateScheduleWithExtras \<lparr>fullYear = 2024, monthIndex = 0, dayOfMonth = 15\<rparr>
        2000 6 1 (183786 / 100) 0 False) = [1 / 100]
   \<and> remainingBalance
        (last (generateScheduleWithExtras \<lparr>fullYear = 2024, monthIndex = 0, dayOfMonth = 15\<rparr>
                 2000 6 1 (183786 / 100) 0 False)) \<noteq> 0"
proof -
  let ?S = "generateScheduleWithExtras \<lparr>fullYear = 2024, monthIndex = 0, dayOfMonth = 15\<rparr>
              2000 6 1 (183786 / 100) 0 False"
  have balances: "map remainingBalance ?S = [1 / 100]"
    unfolding generateScheduleWithExtras_def calculateMonthlyPayment_def Let_def
    by (simp add: extras_loop_step extras_loop_stop generateScheduleWithExtras_body_eq
          extrasPrincipal_def toCents_def Math_round_def Let_def power_divide)
  then have "?S \<noteq> []" by auto
  then have "remainingBalance (last ?S) = last (map remainingBalance ?S)"
    by (simp add: last_map)
  then have "remainingBalance (last ?S) = 1 / 100"
    unfolding balances by simp
  with balances show ?thesis by simp
qed


section \<open>No extra payments: the two generators compared\<close>








section \<open>A loan without interest\<close>





section \<open>The annual extra payment\<close>







section \<open>The refinance comparison: break-even, principal and savings\<close>

text \<open>
  Claim C3. \<^verbatim>\<open>breakEvenMonths\<close> is the ceiling of \<open>closingCosts / monthlySavings\<close> when
  \<^verbatim>\<open>monthlySavings\<close> is positive, the only case in which the division is made, and 999
  otherwise; for inputs that \<^verbatim>\<open>validateRefinanceInputs\<close> accepts it is not negative.
\<close>

theorem break_even_months:
  "breakEvenMonths (calculateRefinanceComparison sd inputs)
     = (if monthlySavings (calculateRefinanceComparison sd inputs) > 0
        then Math_ceil (closingCosts inputs
                          / monthlySavings (calculateRefinanceComparison sd inputs))
        else 999)
   \<and> (validateRefinanceInputs inputs = [] \<longrightarrow>
         0 \<le> breakEvenMonths (calculateRefinanceComparison sd inputs))"
proof (intro conjI impI)
  show "breakEvenMonths (calculateRefinanceComparison sd inputs)
     = (if monthlySavings (calculateRefinanceComparison sd inputs) > 0
        then Math_ceil (closingCosts inputs
                          / monthlySavings (calculateRefinanceComparison sd inputs))
        else 999)"
    by (simp add: calculateRefinanceComparison_def Let_def)
next
  assume "validateRefinanceInputs inputs = []"
  then have cc: "0 \<le> closingCosts inputs" by (rule validateRefinanceInputs_closingCosts)
  have "0 \<le> Math_ceil (closingCosts inputs / s)" if "0 < s" for s
  proof -
    have "0 \<le> closingCosts inputs / s" using cc that by simp
    then have "0 \<le> \<lceil>closingCosts inputs / s\<rceil>" by (simp add: zero_le_ceiling)
    then show ?thesis by (simp add: Math_ceil_def)
  qed
  then show "0 \<le> breakEvenMonths (calculateRefinanceComparison sd inputs)"
    by (simp add: calculateRefinanceComparison_def Let_def)
qed

theorem break_even_months_witness:
  "validateRefinanceInputs
     \<lparr>currentLoanAmount = 350000, currentInterestRate = 15 / 2, currentRemainingYears = 25,
      currentMonthsRemaining = 300, newLoanAmount = 350000, newInterestRate = 6,
      newLoanTermYears = 30, closingCosts = 5000, cashOut = 0, extraMonthlyPayment = 0,
      annualExtraPayment = 0, enableAnnualPayment = False\<rparr> = []
   \<and> 0 \<le> breakEvenMonths
         (calculateRefinanceComparison \<lparr>fullYear = 2024, monthIndex = 0, dayOfMonth = 15\<rparr>
            \<lparr>currentLoanAmount = 350000, currentInterestRate = 15 / 2,
             currentRemainingYears = 25, currentMonthsRemaining = 300, newLoanAmount = 350000,
             newInterestRate = 6, newLoanTermYears = 30, closingCosts = 5000, cashOut = 0,
             extraMonthlyPayment = 0, annualExtraPayment = 0, enableAnnualPayment = False\<rparr>)"
proof -
  let ?i = "\<lparr>currentLoanAmount = 350000, currentInterestRate = 15 / 2,
             currentRemainingYears = 25, currentMonthsRemaining = 300, newLoanAmount = 350000,
             newInterestRate = 6, newLoanTermYears = 30, closingCosts = 5000, cashOut = 0,
             extraMonthlyPayment = 0, annualExtraPayment = 0, enableAnnualPayment = False\<rparr>"
  have v: "validateRefinanceInputs ?i = []" by (simp add: validateRefinanceInputs_def)
  from break_even_months[of "\<lparr>fullYear = 2024, monthIndex = 0, dayOfMonth = 15\<rparr>" ?i] v
  show ?thesis by blast
qed



section \<open>The clock\<close>











section \<open>A balance under one cent in the schedule with extra payments\<close>

text \<open>
  Claim C2 on \<^verbatim>\<open>generateScheduleWithExtras\<close>. A loan of 100 without interest over one
  year, with an extra 91.66 a month: the first payment leaves a balance of two thirds of a
  cent. The loop stops there, the balance is not set to 0, and the only entry of the
  schedule shows a \<^verbatim>\<open>remainingBalance\<close> of one cent.
\<close>

theorem extras_balance_under_one_cent_not_clamped:
  "fst (snd (generateScheduleWithExtras_body \<lparr>fullYear = 2024, monthIndex = 0, dayOfMonth = 15\<rparr>
               0 (calculateMonthlyPayment 100 0 1) (9166 / 100) 0 False 1 100 0)) = 1 / 150
   \<and> map remainingBalance
        (generateScheduleWithExtras \<lparr>fullYear = 2024, monthIndex = 0, dayOfMonth = 15\<rparr>
           100 0 1 (9166 / 100) 0 False) = [1 / 100]"
  unfolding generateScheduleWithExtras_def calculateMonthlyPayment_def Let_def
  by (simp add: extras_loop_step extras_loop_stop generateScheduleWithExtras_body_eq
        extrasPrincipal_def toCents_def Math_round_def Let_def)

end
